theory Spec2Isabelle
  imports Complex_Main
begin

section \<open>Data model of the website monitor\<close>

text \<open>
  The development follows \<^verbatim>\<open>src/services/websiteMonitor.js\<close>.

  A JavaScript string is modelled as a \<^typ>\<open>string\<close>. A metrics object is an association
  list from metric name to count, listed in the order of \<^verbatim>\<open>Object.keys\<close> (the keys of
  an object are distinct: \<open>distinct (Object_keys m)\<close>); the counts
  are the integers that \<^verbatim>\<open>getPageContent\<close> reads from \<^verbatim>\<open>.length\<close>. Arithmetic on them
  is exact: the quotient the code computes in double precision is a \<^typ>\<open>rat\<close> here. The
  exact comparisons \<^verbatim>\<open>change > 0.1\<close> and \<^verbatim>\<open>change > 0.5\<close> are those of the doubles for
  counts below \<open>2^32\<close>, the range of \<^verbatim>\<open>.length\<close>; they can differ for counts near
  \<open>2^53\<close>, and what is proved of the two thresholds is proved for counts below \<open>2^32\<close>.
\<close>

type_synonym metrics = "(string \<times> int) list"

text \<open>
  The object returned by \<^verbatim>\<open>getPageContent\<close> has the properties html, title, url,
  textContent, metrics and timestamp. The snapshot that \<^verbatim>\<open>monitorWebsite\<close> saves spreads
  that object and adds \<^verbatim>\<open>hash\<close>. Both are values of one record, in which \<open>hash\<close> is
  \<open>None\<close> when the object has no such property (reading it gives \<^verbatim>\<open>undefined\<close>).
\<close>

record content =
  html :: string
  title :: string
  url :: string
  textContent :: string
  metrics :: metrics
  timestamp :: string
  hash :: "string option"

datatype change_type = Content | Title | Url | Metric

datatype severity = High | Medium

text \<open>
  A description is a template literal: its fragments in order, the interpolated values
  unrendered. \<open>Fixed1 x\<close> is \<^verbatim>\<open>x.toFixed(1)\<close>.
\<close>

datatype fragment = Str string | Num int | Fixed1 rat

record change_record =
  type :: change_type
  metric :: "string option"
  description :: "fragment list"
  severity :: severity
  change :: "rat option"

datatype error = TypeError | SyntaxError | IOError

section \<open>Change detection\<close>

text \<open>
  \<^verbatim>\<open>
  compareMetrics(current, previous) {
    const changes = [];
    const threshold = 0.1; // 10% change threshold
    Object.keys(current).forEach(metric => {
      if (previous[metric]) {
        const change = Math.abs(current[metric] - previous[metric]) / previous[metric];
        if (change > threshold) {
          changes.push({
            type: 'metric',
            metric,
            description: `${metric} changed from ${previous[metric]} to ${current[metric]} (${(change * 100).toFixed(1)}% change)`,
            severity: change > 0.5 ? 'high' : 'medium',
            change: change
          });
        }
      }
    });
    return changes;
  }
  \<close>
\<close>

definition threshold :: rat where
  "threshold = 1 / 10"

definition Object_keys :: "metrics \<Rightarrow> string list" where
  "Object_keys m = map fst m"

definition metric_record :: "string \<Rightarrow> int \<Rightarrow> int \<Rightarrow> rat \<Rightarrow> change_record" where
  "metric_record m p c chg =
     \<lparr> type = Metric,
       metric = Some m,
       description = [Str m, Str '' changed from '', Num p, Str '' to '', Num c,
                      Str '' ('', Fixed1 (chg * 100), Str ''% change)''],
       severity = (if chg > 1 / 2 then High else Medium),
       change = Some chg \<rparr>"

text \<open>
  The body of the \<^verbatim>\<open>forEach\<close> callback, on the array \<open>changes\<close> built so far. The
  second component of the state is not in the source: it records the divisor
  \<^verbatim>\<open>previous[metric]\<close> of every division the callback evaluates, in order.
  \<^verbatim>\<open>if (previous[metric])\<close> is false for a missing property and for the number 0.
\<close>

definition compareMetrics_body ::
  "metrics \<Rightarrow> metrics \<Rightarrow> change_record list \<times> int list \<Rightarrow> string \<Rightarrow>
   change_record list \<times> int list" where
  "compareMetrics_body current previous st m =
     (case st of (changes, divisors) \<Rightarrow>
        (case (map_of current m, map_of previous m) of
           (Some c, Some p) \<Rightarrow>
             if p \<noteq> 0 then
               (let chg = \<bar>of_int c - of_int p\<bar> / of_int p
                in (if chg > threshold then changes @ [metric_record m p c chg] else changes,
                    divisors @ [p]))
             else (changes, divisors)
         | _ \<Rightarrow> (changes, divisors)))"

fun forEach_metric ::
  "metrics \<Rightarrow> metrics \<Rightarrow> string list \<Rightarrow> change_record list \<times> int list \<Rightarrow>
   change_record list \<times> int list" where
  "forEach_metric current previous [] st = st"
| "forEach_metric current previous (m # ms) st =
     forEach_metric current previous ms (compareMetrics_body current previous st m)"

definition compareMetrics :: "metrics \<Rightarrow> metrics \<Rightarrow> change_record list" where
  "compareMetrics current previous =
     fst (forEach_metric current previous (Object_keys current) ([], []))"

definition compareMetrics_divisors :: "metrics \<Rightarrow> metrics \<Rightarrow> int list" where
  "compareMetrics_divisors current previous =
     snd (forEach_metric current previous (Object_keys current) ([], []))"

text \<open>
  \<^verbatim>\<open>
  detectChanges(current, previous) {
    const changes = [];
    if (current.hash !== previous.hash) {
      changes.push({ type: 'content', description: 'Page content has changed', severity: 'medium' });
    }
    if (current.title !== previous.title) {
      changes.push({ type: 'title',
        description: `Title changed from "${previous.title}" to "${current.title}"`,
        severity: 'high' });
    }
    if (current.url !== previous.url) {
      changes.push({ type: 'url',
        description: `URL changed from "${previous.url}" to "${current.url}"`,
        severity: 'high' });
    }
    const metricChanges = this.compareMetrics(current.metrics, previous.metrics);
    changes.push(...metricChanges);
    return changes;
  }
  \<close>
  An absent previous snapshot is \<^verbatim>\<open>null\<close>; reading \<^verbatim>\<open>previous.hash\<close> then throws a
  TypeError.
\<close>

definition content_record :: change_record where
  "content_record =
     \<lparr> type = Content, metric = None, description = [Str ''Page content has changed''],
       severity = Medium, change = None \<rparr>"

definition title_record :: "string \<Rightarrow> string \<Rightarrow> change_record" where
  "title_record old new =
     \<lparr> type = Title, metric = None,
       description = [Str ''Title changed from \"'', Str old, Str ''\" to \"'', Str new, Str ''\"''],
       severity = High, change = None \<rparr>"

definition url_record :: "string \<Rightarrow> string \<Rightarrow> change_record" where
  "url_record old new =
     \<lparr> type = Url, metric = None,
       description = [Str ''URL changed from \"'', Str old, Str ''\" to \"'', Str new, Str ''\"''],
       severity = High, change = None \<rparr>"

definition detectChanges :: "content \<Rightarrow> content option \<Rightarrow> error + change_record list" where
  "detectChanges current previous =
     (case previous of
        None \<Rightarrow> Inl TypeError
      | Some prev \<Rightarrow>
          (let changes = [];
               changes = (if hash current \<noteq> hash prev then changes @ [content_record] else changes);
               changes = (if title current \<noteq> title prev
                          then changes @ [title_record (title prev) (title current)] else changes);
               changes = (if url current \<noteq> url prev
                          then changes @ [url_record (url prev) (url current)] else changes);
               metricChanges = compareMetrics (metrics current) (metrics prev)
           in Inr (changes @ metricChanges)))"

section \<open>Change rate\<close>

text \<open>
  \<^verbatim>\<open>String.prototype.split\<close> with the pattern \<^verbatim>\<open>/\s+/\<close>: the text is cut at every
  maximal run of white space. A run at the start or at the end leaves an empty token
  there, and the empty text gives the single token \<open>''''\<close> (the pattern does not match
  the empty string). A \<^typ>\<open>char\<close> stands for the UTF-16 code unit of the same number, so
  the white space of \<^verbatim>\<open>\s\<close> that a \<^typ>\<open>char\<close> can hold is U+0009 to U+000D, U+0020
  and U+00A0.
\<close>

definition is_space :: "char \<Rightarrow> bool" where
  "is_space c = ((of_char c :: nat) \<in> {9, 10, 11, 12, 13, 32, 160})"

function split_ws :: "string \<Rightarrow> string list" where
  "split_ws s =
     (let token = takeWhile (\<lambda>c. \<not> is_space c) s;
          rest = dropWhile (\<lambda>c. \<not> is_space c) s
      in if rest = [] then [token] else token # split_ws (dropWhile is_space rest))"
  by pat_completeness auto
termination
proof (relation "measure length")
  fix s :: string and token rest
  assume rest: "rest = dropWhile (\<lambda>c. \<not> is_space c) s" and ne: "rest \<noteq> []"
  have "length (dropWhile is_space rest) < length rest"
  proof (cases rest)
    case Nil
    with ne show ?thesis by simp
  next
    case (Cons c cs)
    have "is_space (hd rest)"
      using ne hd_dropWhile [of "\<lambda>c. \<not> is_space c" s] by (simp add: rest)
    then have "dropWhile is_space rest = dropWhile is_space cs"
      by (simp add: Cons)
    then show ?thesis
      using length_dropWhile_le [of is_space cs] by (simp add: Cons)
  qed
  moreover have "length rest \<le> length s"
    by (simp add: rest length_dropWhile_le)
  ultimately show "(dropWhile is_space rest, s) \<in> measure length"
    by simp
qed simp

declare split_ws.simps [simp del]

text \<open>
  \<^verbatim>\<open>
  calculateChangeRate(current, previous) {
    const currentWords = current.textContent.split(/\s+/);
    const previousWords = previous.textContent.split(/\s+/);
    const commonWords = currentWords.filter(word => previousWords.includes(word));
    const changeRate = 1 - (commonWords.length / Math.max(currentWords.length, previousWords.length));
    return changeRate;
  }
  \<close>
\<close>

definition commonWords :: "content \<Rightarrow> content \<Rightarrow> string list" where
  "commonWords current previous =
     (let currentWords = split_ws (textContent current);
          previousWords = split_ws (textContent previous)
      in filter (\<lambda>word. word \<in> set previousWords) currentWords)"

text \<open>The divisor \<^verbatim>\<open>Math.max(currentWords.length, previousWords.length)\<close>.\<close>

definition changeRate_divisor :: "content \<Rightarrow> content \<Rightarrow> nat" where
  "changeRate_divisor current previous =
     max (length (split_ws (textContent current))) (length (split_ws (textContent previous)))"

definition calculateChangeRate :: "content \<Rightarrow> content \<Rightarrow> rat" where
  "calculateChangeRate current previous =
     1 - of_nat (length (commonWords current previous))
           / of_nat (changeRate_divisor current previous)"

text \<open>
  \<^verbatim>\<open>
  calculateMetrics(current, previous) {
    return {
      currentMetrics: current.metrics,
      previousMetrics: previous?.metrics || {},
      changeRate: previous ? this.calculateChangeRate(current, previous) : 0
    };
  }
  \<close>
\<close>

record run_metrics =
  currentMetrics :: metrics
  previousMetrics :: metrics
  changeRate :: rat

definition calculateMetrics :: "content \<Rightarrow> content option \<Rightarrow> run_metrics" where
  "calculateMetrics current previous =
     \<lparr> currentMetrics = metrics current,
       previousMetrics = (case previous of Some prev \<Rightarrow> metrics prev | None \<Rightarrow> []),
       changeRate = (case previous of Some prev \<Rightarrow> calculateChangeRate current prev | None \<Rightarrow> 0) \<rparr>"

section \<open>Snapshot store\<close>

text \<open>
  The monitor object and the files it works on. A snapshot file holds the text
  \<^verbatim>\<open>JSON.stringify(snapshot, null, 2)\<close>, represented by the snapshot it encodes
  (\<open>Document\<close>: all its properties are strings and integers, which \<^verbatim>\<open>JSON.parse\<close>
  reads back unchanged), or a text that \<^verbatim>\<open>JSON.parse\<close> rejects (\<open>Unparseable\<close>).
  \<open>rejects\<close> holds for the paths on which \<^verbatim>\<open>fs.writeFile\<close> fails (a missing
  directory, no permission, a full disk). \<open>error_log\<close> is what \<^verbatim>\<open>logger.error\<close> has
  written. \<^verbatim>\<open>path.join\<close> puts the separator between its two arguments; its
  normalisation of the result is left out.
\<close>

datatype file_text = Document content | Unparseable

record monitor =
  snapshotsDir :: string
  files :: "string \<rightharpoonup> file_text"
  rejects :: "string \<Rightarrow> bool"
  error_log :: "string list"

definition logger_error :: "monitor \<Rightarrow> string \<Rightarrow> monitor" where
  "logger_error mon msg = mon\<lparr>error_log := error_log mon @ [msg]\<rparr>"

definition path_join :: "string \<Rightarrow> string \<Rightarrow> string" where
  "path_join dir f = dir @ ''/'' @ f"

definition snapshotPath :: "monitor \<Rightarrow> string \<Rightarrow> string" where
  "snapshotPath mon competitorId = path_join (snapshotsDir mon) (competitorId @ ''.json'')"

definition readFile :: "monitor \<Rightarrow> string \<Rightarrow> error + file_text" where
  "readFile mon p = (case files mon p of None \<Rightarrow> Inl IOError | Some f \<Rightarrow> Inr f)"

definition writeFile :: "monitor \<Rightarrow> string \<Rightarrow> file_text \<Rightarrow> error + monitor" where
  "writeFile mon p f =
     (if rejects mon p then Inl IOError else Inr (mon\<lparr>files := (files mon)(p \<mapsto> f)\<rparr>))"

definition JSON_stringify :: "content \<Rightarrow> file_text" where
  "JSON_stringify snapshot = Document snapshot"

definition JSON_parse :: "file_text \<Rightarrow> error + content" where
  "JSON_parse f = (case f of Document snapshot \<Rightarrow> Inr snapshot | Unparseable \<Rightarrow> Inl SyntaxError)"

text \<open>
  \<^verbatim>\<open>
  async loadPreviousSnapshot(competitorId) {
    try {
      const snapshotPath = path.join(this.snapshotsDir, `${competitorId}.json`);
      const snapshotData = await fs.readFile(snapshotPath, 'utf8');
      return JSON.parse(snapshotData);
    } catch (error) {
      return null;
    }
  }
  \<close>
\<close>

definition loadPreviousSnapshot :: "monitor \<Rightarrow> string \<Rightarrow> content option" where
  "loadPreviousSnapshot mon competitorId =
     (case readFile mon (snapshotPath mon competitorId) of
        Inl e \<Rightarrow> None
      | Inr snapshotData \<Rightarrow>
          (case JSON_parse snapshotData of Inl e \<Rightarrow> None | Inr snapshot \<Rightarrow> Some snapshot))"

text \<open>
  \<^verbatim>\<open>
  async saveSnapshot(competitorId, snapshot) {
    try {
      const snapshotPath = path.join(this.snapshotsDir, `${competitorId}.json`);
      await fs.writeFile(snapshotPath, JSON.stringify(snapshot, null, 2));
    } catch (error) {
      logger.error(`Failed to save snapshot for ${competitorId}`, error);
    }
  }
  \<close>
\<close>

definition saveSnapshot :: "monitor \<Rightarrow> string \<Rightarrow> content \<Rightarrow> monitor" where
  "saveSnapshot mon competitorId snapshot =
     (case writeFile mon (snapshotPath mon competitorId) (JSON_stringify snapshot) of
        Inr mon' \<Rightarrow> mon'
      | Inl e \<Rightarrow> logger_error mon (''Failed to save snapshot for '' @ competitorId))"

section \<open>Monitoring run\<close>

text \<open>
  A competitor as \<^verbatim>\<open>monitorWebsite\<close> and \<^verbatim>\<open>monitorAll\<close> read it: \<^verbatim>\<open>id\<close>,
  \<^verbatim>\<open>name\<close>, \<^verbatim>\<open>website\<close> and the truth value of \<^verbatim>\<open>monitoring?.website\<close>.
\<close>

record competitor =
  competitor_id :: string
  name :: string
  website :: string
  monitoring_website :: bool

text \<open>
  What a run takes from outside: the outcome of \<^verbatim>\<open>this.getPageContent(competitor.website)\<close>
  (the page read through the browser, \<^verbatim>\<open>null\<close>, or an exception, which
  \<^verbatim>\<open>initBrowser\<close> can raise outside the function's own \<^verbatim>\<open>try\<close>), and the two readings
  of the clock that end up in the result and in the snapshot. A run is defined for each
  outcome of the call; the browser automation inside \<^verbatim>\<open>getPageContent\<close> is not
  modelled. (As the function is written, its \<^verbatim>\<open>const url = page.url()\<close> shadows the
  parameter \<^verbatim>\<open>url\<close> in the whole \<^verbatim>\<open>try\<close> block, so the earlier \<^verbatim>\<open>page.goto(url, ...)\<close>
  raises a ReferenceError and the \<^verbatim>\<open>catch\<close> returns \<^verbatim>\<open>null\<close>.)

  The result of a run has the properties competitor, website, timestamp, changes, errors
  and metrics; \<open>metrics_res\<close> is \<open>None\<close> for the empty object \<^verbatim>\<open>{}\<close>. The informational
  log lines and the measured duration are left out.
\<close>

datatype fetch_outcome = Page content | Null | Throws string

record run_env =
  getPageContent :: fetch_outcome
  result_time :: string
  snapshot_time :: string

record results =
  competitor :: string
  website_res :: string
  timestamp_res :: string
  changes :: "change_record list"
  errors :: "string list"
  metrics_res :: "run_metrics option"

text \<open>
  \<^verbatim>\<open>error.message\<close>, by the kind of error. Only the TypeError of \<open>detectChanges\<close> can
  reach the \<^verbatim>\<open>catch\<close> block of \<^verbatim>\<open>monitorWebsite\<close>: the store functions catch their own.
\<close>

definition message :: "error \<Rightarrow> string" where
  "message e = (case e of
      TypeError \<Rightarrow> ''Cannot read properties of null''
    | SyntaxError \<Rightarrow> ''Unexpected token in JSON''
    | IOError \<Rightarrow> ''ENOENT: no such file or directory'')"

text \<open>\<^verbatim>\<open>crypto.createHash('sha256').update(content).digest('hex')\<close>, the digest a parameter.\<close>

definition generateHash :: "(string \<Rightarrow> string) \<Rightarrow> string \<Rightarrow> string" where
  "generateHash sha256 c = sha256 c"

text \<open>The \<^verbatim>\<open>catch\<close> block of \<^verbatim>\<open>monitorWebsite\<close>.\<close>

definition monitorWebsite_catch ::
  "run_env \<Rightarrow> monitor \<Rightarrow> competitor \<Rightarrow> string \<Rightarrow> results \<times> monitor" where
  "monitorWebsite_catch env mon c msg =
     (\<lparr> competitor = name c, website_res = website c, timestamp_res = result_time env,
        changes = [], errors = [msg], metrics_res = None \<rparr>,
      logger_error mon (''Website monitoring failed for '' @ name c))"

text \<open>
  \<^verbatim>\<open>
  async monitorWebsite(competitor) {
    try {
      const results = { competitor: competitor.name, website: competitor.website,
        timestamp: new Date().toISOString(), changes: [], errors: [], metrics: {} };
      const currentContent = await this.getPageContent(competitor.website);
      if (!currentContent) {
        results.errors.push('Failed to fetch page content');
        return results;
      }
      const contentHash = this.generateHash(currentContent.html);
      const previousSnapshot = await this.loadPreviousSnapshot(competitor.id);
      if (previousSnapshot) {
        const changes = this.detectChanges(currentContent, previousSnapshot);
        results.changes = changes;
        results.metrics = this.calculateMetrics(currentContent, previousSnapshot);
      }
      await this.saveSnapshot(competitor.id, {
        ...currentContent, hash: contentHash, timestamp: new Date().toISOString() });
      return results;
    } catch (error) {
      logger.error(`Website monitoring failed for ${competitor.name}`, error);
      return { competitor: competitor.name, website: competitor.website,
        timestamp: new Date().toISOString(), changes: [], errors: [error.message], metrics: {} };
    }
  }
  \<close>
\<close>

definition monitorWebsite ::
  "(string \<Rightarrow> string) \<Rightarrow> run_env \<Rightarrow> monitor \<Rightarrow> competitor \<Rightarrow> results \<times> monitor" where
  "monitorWebsite sha256 env mon c =
     (let results = \<lparr> competitor = name c, website_res = website c,
                       timestamp_res = result_time env,
                       changes = [], errors = [], metrics_res = None \<rparr>
      in case getPageContent env of
           Throws msg \<Rightarrow> monitorWebsite_catch env mon c msg
         | Null \<Rightarrow> (results\<lparr>errors := errors results @ [''Failed to fetch page content'']\<rparr>, mon)
         | Page currentContent \<Rightarrow>
             (let contentHash = generateHash sha256 (html currentContent);
                  previousSnapshot = loadPreviousSnapshot mon (competitor_id c);
                  snapshot = currentContent\<lparr>hash := Some contentHash,
                                            timestamp := snapshot_time env\<rparr>
              in case previousSnapshot of
                   None \<Rightarrow> (results, saveSnapshot mon (competitor_id c) snapshot)
                 | Some prev \<Rightarrow>
                     (case detectChanges currentContent previousSnapshot of
                        Inl e \<Rightarrow> monitorWebsite_catch env mon c (message e)
                      | Inr chs \<Rightarrow>
                          (results\<lparr>changes := chs,
                                   metrics_res :=
                                     Some (calculateMetrics currentContent previousSnapshot)\<rparr>,
                           saveSnapshot mon (competitor_id c) snapshot))))"

text \<open>
  \<^verbatim>\<open>
  async monitorAll(competitors) {
    const results = [];
    for (const competitor of competitors) {
      if (competitor.monitoring?.website) {
        const result = await this.monitorWebsite(competitor);
        results.push(result);
      }
    }
    return results;
  }
  \<close>
  \<open>env\<close> gives each competitor what its run takes from outside. The pause between two
  competitors and the closing of the browser are left out.
\<close>

fun monitorAll_loop ::
  "(string \<Rightarrow> string) \<Rightarrow> (competitor \<Rightarrow> run_env) \<Rightarrow> monitor \<Rightarrow> competitor list \<Rightarrow>
   results list \<Rightarrow> results list \<times> monitor" where
  "monitorAll_loop sha256 env mon [] rs = (rs, mon)"
| "monitorAll_loop sha256 env mon (c # cs) rs =
     (if monitoring_website c then
        (let (result, mon') = monitorWebsite sha256 (env c) mon c
         in monitorAll_loop sha256 env mon' cs (rs @ [result]))
      else monitorAll_loop sha256 env mon cs rs)"

definition monitorAll ::
  "(string \<Rightarrow> string) \<Rightarrow> (competitor \<Rightarrow> run_env) \<Rightarrow> monitor \<Rightarrow> competitor list \<Rightarrow>
   results list \<times> monitor" where
  "monitorAll sha256 env mon competitors = monitorAll_loop sha256 env mon competitors []"

section \<open>Example values\<close>

text \<open>
  A page, the same page with another title, a competitor, a monitor whose disk accepts
  every write and one whose disk refuses every write. \<open>example_sha256\<close> stands in for the
  digest where a closed term is needed; no result depends on which function it is.
\<close>

definition example_page :: content where
  "example_page =
     \<lparr> html = ''<html><head><title>Acme</title></head><body>welcome to acme</body></html>'',
       title = ''Acme'',
       url = ''https://acme.example/'',
       textContent = ''welcome to acme'',
       metrics = [(''wordCount'', 3), (''linkCount'', 0), (''imageCount'', 0), (''headingCount'', 0)],
       timestamp = ''2024-01-01T00:00:00.000Z'',
       hash = None \<rparr>"

definition example_page_retitled :: content where
  "example_page_retitled =
     example_page\<lparr> html := ''<html><head><title>Acme Corp</title></head><body>welcome to acme</body></html>'',
                    title := ''Acme Corp'' \<rparr>"

definition example_competitor :: competitor where
  "example_competitor =
     \<lparr> competitor_id = ''acme'', name = ''Acme'', website = ''https://acme.example'',
       monitoring_website = True \<rparr>"

definition example_env :: "content \<Rightarrow> run_env" where
  "example_env page =
     \<lparr> getPageContent = Page page, result_time = ''2024-01-08T00:00:00.000Z'',
       snapshot_time = ''2024-01-08T00:00:05.000Z'' \<rparr>"

definition example_monitor :: monitor where
  "example_monitor =
     \<lparr> snapshotsDir = ''data/reports/snapshots'', files = Map.empty,
       rejects = (\<lambda>p. False), error_log = [] \<rparr>"

definition readonly_monitor :: monitor where
  "readonly_monitor = example_monitor\<lparr> rejects := (\<lambda>p. True) \<rparr>"

definition example_sha256 :: "string \<Rightarrow> string" where
  "example_sha256 s = ''sha256:'' @ s"

section \<open>The metric loop as a concatenation\<close>

lemma compareMetrics_body_acc:
  "compareMetrics_body cur prev (chs, ds) m =
     (chs @ fst (compareMetrics_body cur prev ([], []) m),
      ds @ snd (compareMetrics_body cur prev ([], []) m))"
  by (simp add: compareMetrics_body_def Let_def split: option.splits)

lemma forEach_metric_acc:
  "forEach_metric cur prev ms (chs, ds) =
     (chs @ fst (forEach_metric cur prev ms ([], [])),
      ds @ snd (forEach_metric cur prev ms ([], [])))"
proof (induction ms arbitrary: chs ds)
  case Nil
  show ?case by simp
next
  case (Cons m ms)
  obtain a b where body: "compareMetrics_body cur prev ([], []) m = (a, b)"
    by (cases "compareMetrics_body cur prev ([], []) m")
  have step: "compareMetrics_body cur prev (chs, ds) m = (chs @ a, ds @ b)"
    using compareMetrics_body_acc [of cur prev chs ds m] by (simp add: body)
  show ?case
    using Cons.IH [of "chs @ a" "ds @ b"] Cons.IH [of a b] by (simp add: step body)
qed

lemma compareMetrics_concat:
  "compareMetrics cur prev =
     concat (map (\<lambda>m. fst (compareMetrics_body cur prev ([], []) m)) (Object_keys cur))"
proof -
  have "fst (forEach_metric cur prev ms ([], [])) =
        concat (map (\<lambda>m. fst (compareMetrics_body cur prev ([], []) m)) ms)" for ms
  proof (induction ms)
    case Nil
    show ?case by simp
  next
    case (Cons m ms)
    obtain a b where body: "compareMetrics_body cur prev ([], []) m = (a, b)"
      by (cases "compareMetrics_body cur prev ([], []) m")
    show ?case
      using Cons.IH forEach_metric_acc [of cur prev ms a b] by (simp add: body)
  qed
  then show ?thesis by (simp add: compareMetrics_def)
qed

lemma compareMetrics_divisors_concat:
  "compareMetrics_divisors cur prev =
     concat (map (\<lambda>m. snd (compareMetrics_body cur prev ([], []) m)) (Object_keys cur))"
proof -
  have "snd (forEach_metric cur prev ms ([], [])) =
        concat (map (\<lambda>m. snd (compareMetrics_body cur prev ([], []) m)) ms)" for ms
  proof (induction ms)
    case Nil
    show ?case by simp
  next
    case (Cons m ms)
    obtain a b where body: "compareMetrics_body cur prev ([], []) m = (a, b)"
      by (cases "compareMetrics_body cur prev ([], []) m")
    show ?case
      using Cons.IH forEach_metric_acc [of cur prev ms a b] by (simp add: body)
  qed
  then show ?thesis by (simp add: compareMetrics_divisors_def)
qed

lemma compareMetrics_body_metric:
  "r \<in> set (fst (compareMetrics_body cur prev ([], []) m)) \<Longrightarrow> metric r = Some m \<and> type r = Metric"
  by (auto simp: compareMetrics_body_def metric_record_def Let_def split: option.splits if_splits)

lemma compareMetrics_body_self:
  "fst (compareMetrics_body m m ([], []) k) = []"
  by (simp add: compareMetrics_body_def threshold_def Let_def split: option.splits)

lemma compareMetrics_self: "compareMetrics m m = []"
  by (simp add: compareMetrics_concat compareMetrics_body_self)

lemma compareMetrics_type:
  "r \<in> set (compareMetrics current previous) \<Longrightarrow> type r = Metric"
  using compareMetrics_body_metric by (fastforce simp: compareMetrics_concat)

lemma filter_concat_key:
  assumes "distinct ks" and "k \<in> set ks"
    and "\<And>k' r. r \<in> set (f k') \<Longrightarrow> metric r = Some k'"
  shows "filter (\<lambda>r. metric r = Some k) (concat (map f ks)) = f k"
  using assms(1,2)
proof (induction ks)
  case Nil
  then show ?case by simp
next
  case (Cons a ks)
  have other: "filter (\<lambda>r. metric r = Some k) (f k') = []" if "k' \<noteq> k" for k'
    using assms(3) [of _ k'] that by (auto simp: filter_empty_conv)
  have same: "filter (\<lambda>r. metric r = Some k) (f k) = f k"
    using assms(3) [of _ k] by (simp add: filter_id_conv)
  show ?case
  proof (cases "a = k")
    case True
    then have "k \<notin> set ks" using Cons.prems by simp
    then have "filter (\<lambda>r. metric r = Some k) (concat (map f ks)) = []"
      using other by (induction ks) auto
    then show ?thesis using True same by simp
  next
    case False
    then show ?thesis using Cons other [of a] by simp
  qed
qed

lemma detectChanges_Some:
  "detectChanges current (Some previous) =
     Inr ((if hash current \<noteq> hash previous then [content_record] else [])
          @ (if title current \<noteq> title previous
             then [title_record (title previous) (title current)] else [])
          @ (if url current \<noteq> url previous
             then [url_record (url previous) (url current)] else [])
          @ compareMetrics (metrics current) (metrics previous))"
  by (simp add: detectChanges_def)

section \<open>Properties of the change detector\<close>

text \<open>
  C2. For every pair of snapshots whose hash, title, url and metrics are respectively
  equal, \<open>detectChanges\<close> returns the empty sequence of change records.
\<close>

theorem detectChanges_identical:
  assumes "hash current = hash previous" and "title current = title previous"
    and "url current = url previous" and "metrics current = metrics previous"
  shows "detectChanges current (Some previous) = Inr []"
  using assms by (simp add: detectChanges_Some compareMetrics_self)

theorem detectChanges_identical_witness:
  "hash (example_page\<lparr>hash := Some ''ab12''\<rparr>)
     = hash (example_page\<lparr>hash := Some ''ab12'', timestamp := ''2024-01-15T00:00:00.000Z''\<rparr>)
   \<and> detectChanges (example_page\<lparr>hash := Some ''ab12''\<rparr>)
        (Some (example_page\<lparr>hash := Some ''ab12'', timestamp := ''2024-01-15T00:00:00.000Z''\<rparr>))
       = Inr []"
  using detectChanges_identical
          [of "example_page\<lparr>hash := Some ''ab12''\<rparr>"
              "example_page\<lparr>hash := Some ''ab12'', timestamp := ''2024-01-15T00:00:00.000Z''\<rparr>"]
  by simp

lemma quotient_margin:
  fixes a p n :: int
  assumes "0 < p" and "p < 2 ^ 32" and "0 < n" and "n \<le> 10"
    and "(of_int a / of_int p :: rat) > 1 / of_int n"
  shows "(of_int a / of_int p :: rat) - 1 / of_int n > 1 / 2 ^ 36"
proof -
  have pos: "(0 :: rat) < of_int p" "(0 :: rat) < of_int n"
    using assms(1,3) by simp_all
  have "(of_int p :: rat) < of_int n * of_int a"
    using assms(5) pos by (simp add: field_simps)
  then have "(of_int p :: rat) < of_int (n * a)" by simp
  then have "p < n * a" by (simp only: of_int_less_iff)
  then have "p + 1 \<le> n * a" by simp
  then have "(of_int (p + 1) :: rat) \<le> of_int (n * a)" by (simp only: of_int_le_iff)
  then have ge: "(of_int p :: rat) + 1 \<le> of_int n * of_int a" by simp
  have "n * p \<le> 10 * p"
    using assms(1,4) by (simp add: mult_right_mono)
  moreover have "10 * p < 10 * 2 ^ 32"
    using assms(2) by simp
  ultimately have "n * p < 2 ^ 36" by simp
  then have "(of_int (n * p) :: rat) < of_int (2 ^ 36)" by (simp only: of_int_less_iff)
  then have small: "(of_int n :: rat) * of_int p < 2 ^ 36" by simp
  have "(of_int a / of_int p :: rat) - 1 / of_int n
          = (of_int n * of_int a - of_int p) / (of_int n * of_int p)"
    using pos by (simp add: field_simps)
  also have "\<dots> \<ge> 1 / (of_int n * of_int p)"
    using ge pos by (simp add: divide_right_mono)
  finally have "(of_int a / of_int p :: rat) - 1 / of_int n \<ge> 1 / (of_int n * of_int p)" .
  moreover have "1 / (of_int n * of_int p) > (1 / 2 ^ 36 :: rat)"
    using small pos by (simp add: frac_less2)
  ultimately show ?thesis by linarith
qed

text \<open>
  C4. For a metric key \<open>k\<close> of both metrics objects with previous value \<open>p > 0\<close> and
  current value \<open>c\<close>, both of them counts below \<open>2^32\<close> (the range of \<^verbatim>\<open>.length\<close>),
  the records of \<open>compareMetrics\<close> for \<open>k\<close> are exactly one metric record when
  \<open>|c - p| / p > 0.10\<close> and none otherwise; the record's severity is high when
  \<open>|c - p| / p > 0.50\<close> and medium otherwise. For such counts a quotient above a
  threshold is above it by more than \<open>2^-36\<close>, which the rounding of a double division
  (a relative error of at most \<open>2^-53\<close>) and of the constant \<^verbatim>\<open>0.1\<close> cannot bridge: the
  comparisons of the code come out as the exact ones.
\<close>

theorem compareMetrics_threshold:
  assumes "distinct (Object_keys current)"
    and "map_of current k = Some c" and "map_of previous k = Some p"
    and "0 < p" and "p < 2 ^ 32" and "0 \<le> c" and "c < 2 ^ 32"
  shows "filter (\<lambda>r. metric r = Some k) (compareMetrics current previous) =
           (if \<bar>of_int c - of_int p\<bar> / of_int p > (1 / 10 :: rat)
            then [metric_record k p c (\<bar>of_int c - of_int p\<bar> / of_int p)] else [])
         \<and> type (metric_record k p c (\<bar>of_int c - of_int p\<bar> / of_int p)) = Metric
         \<and> severity (metric_record k p c (\<bar>of_int c - of_int p\<bar> / of_int p)) =
             (if \<bar>of_int c - of_int p\<bar> / of_int p > (1 / 2 :: rat) then High else Medium)
         \<and> (\<bar>of_int c - of_int p\<bar> / of_int p > (1 / 10 :: rat) \<longrightarrow>
              \<bar>of_int c - of_int p\<bar> / of_int p - 1 / 10 > (1 / 2 ^ 36 :: rat))
         \<and> (\<bar>of_int c - of_int p\<bar> / of_int p > (1 / 2 :: rat) \<longrightarrow>
              \<bar>of_int c - of_int p\<bar> / of_int p - 1 / 2 > (1 / 2 ^ 36 :: rat))"
proof -
  have k: "k \<in> set (Object_keys current)"
    using assms(2) by (auto simp: Object_keys_def dest: map_of_SomeD intro: rev_image_eqI)
  have "filter (\<lambda>r. metric r = Some k) (compareMetrics current previous) =
        fst (compareMetrics_body current previous ([], []) k)"
    unfolding compareMetrics_concat
    using assms(1) k by (rule filter_concat_key) (simp add: compareMetrics_body_metric)
  moreover have "fst (compareMetrics_body current previous ([], []) k) =
        (if \<bar>of_int c - of_int p\<bar> / of_int p > (1 / 10 :: rat)
         then [metric_record k p c (\<bar>of_int c - of_int p\<bar> / of_int p)] else [])"
    using assms(2,3,4) by (simp add: compareMetrics_body_def threshold_def Let_def)
  moreover have abs: "(\<bar>of_int c - of_int p\<bar> :: rat) = of_int \<bar>c - p\<bar>"
    by simp
  have "\<bar>of_int c - of_int p\<bar> / of_int p - 1 / 10 > (1 / 2 ^ 36 :: rat)"
    if "\<bar>of_int c - of_int p\<bar> / of_int p > (1 / 10 :: rat)"
    using quotient_margin [of p 10 "\<bar>c - p\<bar>"] assms(4,5) that by (simp only: abs) simp
  moreover have "\<bar>of_int c - of_int p\<bar> / of_int p - 1 / 2 > (1 / 2 ^ 36 :: rat)"
    if "\<bar>of_int c - of_int p\<bar> / of_int p > (1 / 2 :: rat)"
    using quotient_margin [of p 2 "\<bar>c - p\<bar>"] assms(4,5) that by (simp only: abs) simp
  ultimately show ?thesis by (simp add: metric_record_def)
qed

text \<open>
  The boundary cases of C4: previous value 100 and current value 109 give no record, 111
  gives one record of severity medium, 160 one of severity high.
\<close>

theorem compareMetrics_threshold_witness:
  "compareMetrics [(''wordCount'', 109)] [(''wordCount'', 100)] = []
   \<and> filter (\<lambda>r. metric r = Some ''wordCount'')
      (compareMetrics [(''wordCount'', 109)] [(''wordCount'', 100)]) = []
   \<and> compareMetrics [(''wordCount'', 111)] [(''wordCount'', 100)]
       = [metric_record ''wordCount'' 100 111 (11 / 100)]
   \<and> filter (\<lambda>r. metric r = Some ''wordCount'')
      (compareMetrics [(''wordCount'', 111)] [(''wordCount'', 100)])
       = [metric_record ''wordCount'' 100 111 (11 / 100)]
   \<and> severity (metric_record ''wordCount'' 100 111 (11 / 100)) = Medium
   \<and> compareMetrics [(''wordCount'', 160)] [(''wordCount'', 100)]
       = [metric_record ''wordCount'' 100 160 (3 / 5)]
   \<and> filter (\<lambda>r. metric r = Some ''wordCount'')
      (compareMetrics [(''wordCount'', 160)] [(''wordCount'', 100)])
       = [metric_record ''wordCount'' 100 160 (3 / 5)]
   \<and> severity (metric_record ''wordCount'' 100 160 (3 / 5)) = High
   \<and> (11 / 100 - 1 / 10 :: rat) > 1 / 2 ^ 36
   \<and> (3 / 5 - 1 / 2 :: rat) > 1 / 2 ^ 36"
  using compareMetrics_threshold [of "[(''wordCount'', 109)]" "''wordCount''" 109 "[(''wordCount'', 100)]" 100]
    compareMetrics_threshold [of "[(''wordCount'', 111)]" "''wordCount''" 111 "[(''wordCount'', 100)]" 100]
    compareMetrics_threshold [of "[(''wordCount'', 160)]" "''wordCount''" 160 "[(''wordCount'', 100)]" 100]
  by (simp add: Object_keys_def compareMetrics_def compareMetrics_body_def threshold_def)

text \<open>
  C5. A metric key that is missing from the current or from the previous metrics
  object, or whose previous value is 0, has no metric record in the result of
  \<open>compareMetrics\<close>, whatever the current value; and no division the loop evaluates
  has the divisor 0.
\<close>

theorem compareMetrics_skips:
  assumes "map_of current k = None \<or> map_of previous k = None \<or> map_of previous k = Some 0"
  shows "Some k \<notin> metric ` set (compareMetrics current previous)
         \<and> 0 \<notin> set (compareMetrics_divisors current previous)"
proof -
  have none: "fst (compareMetrics_body current previous ([], []) k) = []"
    using assms by (auto simp: compareMetrics_body_def split: option.splits)
  have "metric r \<noteq> Some k" if r: "r \<in> set (compareMetrics current previous)" for r
  proof
    assume "metric r = Some k"
    moreover obtain m where "r \<in> set (fst (compareMetrics_body current previous ([], []) m))"
      using r by (auto simp: compareMetrics_concat)
    ultimately show False
      using compareMetrics_body_metric [of r current previous m] none by auto
  qed
  then have "Some k \<notin> metric ` set (compareMetrics current previous)"
    by force
  moreover have "0 \<notin> set (snd (compareMetrics_body current previous ([], []) m))" for m
    by (simp add: compareMetrics_body_def Let_def split: option.splits)
  then have "0 \<notin> set (compareMetrics_divisors current previous)"
    by (auto simp: compareMetrics_divisors_concat)
  ultimately show ?thesis by blast
qed

theorem compareMetrics_skips_witness:
  "map_of [(''wordCount'', 0), (''imageCount'', 7)] ''wordCount'' = Some (0 :: int)
   \<and> Some ''wordCount'' \<notin> metric ` set (compareMetrics
        [(''wordCount'', 500), (''linkCount'', 3), (''imageCount'', 70)]
        [(''wordCount'', 0), (''imageCount'', 7)])
   \<and> 0 \<notin> set (compareMetrics_divisors
        [(''wordCount'', 500), (''linkCount'', 3), (''imageCount'', 70)]
        [(''wordCount'', 0), (''imageCount'', 7)])
   \<and> compareMetrics_divisors
        [(''wordCount'', 500), (''linkCount'', 3), (''imageCount'', 70)]
        [(''wordCount'', 0), (''imageCount'', 7)] = [7]"
proof -
  have zero: "map_of [(''wordCount'', 0), (''imageCount'', 7)] ''wordCount'' = Some (0 :: int)"
    by simp
  have divisors: "compareMetrics_divisors
        [(''wordCount'', 500), (''linkCount'', 3), (''imageCount'', 70)]
        [(''wordCount'', 0), (''imageCount'', 7)] = [7]"
    by (simp add: compareMetrics_divisors_def Object_keys_def compareMetrics_body_def)
  show ?thesis
    using zero divisors
      compareMetrics_skips [of "[(''wordCount'', 500), (''linkCount'', 3), (''imageCount'', 70)]"
        "''wordCount''" "[(''wordCount'', 0), (''imageCount'', 7)]"]
    by simp
qed

text \<open>
  C6. \<open>detectChanges\<close> emits its records in the order content, title, url, metric
  records. The content record, of severity medium, is there exactly when the hashes
  differ; the title record, of severity high, exactly when the titles differ as strings;
  the url record, of severity high, exactly when the urls differ as strings; all records
  after them are metric records. With previous title \<open>Home\<close>, current title \<open>home\<close> and
  all other fields equal the result is the single title record.
\<close>

theorem detectChanges_order:
  "detectChanges current (Some previous) =
     Inr ((if hash current \<noteq> hash previous then [content_record] else [])
          @ (if title current \<noteq> title previous
             then [title_record (title previous) (title current)] else [])
          @ (if url current \<noteq> url previous
             then [url_record (url previous) (url current)] else [])
          @ compareMetrics (metrics current) (metrics previous))
   \<and> type content_record = Content \<and> severity content_record = Medium
   \<and> type (title_record old new) = Title \<and> severity (title_record old new) = High
   \<and> type (url_record old new) = Url \<and> severity (url_record old new) = High
   \<and> type ` set (compareMetrics (metrics current) (metrics previous)) \<subseteq> {Metric}
   \<and> detectChanges (current\<lparr>title := ''home''\<rparr>) (Some (current\<lparr>title := ''Home''\<rparr>))
       = Inr [title_record ''Home'' ''home'']"
proof -
  have "type ` set (compareMetrics (metrics current) (metrics previous)) \<subseteq> {Metric}"
    using compareMetrics_type by auto
  moreover have "detectChanges (current\<lparr>title := ''home''\<rparr>) (Some (current\<lparr>title := ''Home''\<rparr>))
       = Inr [title_record ''Home'' ''home'']"
    by (simp add: detectChanges_Some compareMetrics_self)
  ultimately show ?thesis
    by (simp add: detectChanges_Some content_record_def title_record_def url_record_def)
qed

section \<open>Properties of the change rate\<close>

lemma split_ws_nonempty: "split_ws s \<noteq> []"
  by (subst split_ws.simps) (simp add: Let_def)

lemma split_ws_abcd: "split_ws ''a b c d'' = [''a'', ''b'', ''c'', ''d'']"
  by code_simp

lemma split_ws_efgh: "split_ws ''e f g h'' = [''e'', ''f'', ''g'', ''h'']"
  by code_simp

lemma rate_bounds:
  fixes a b :: nat
  assumes "a \<le> b" and "0 < b"
  shows "0 \<le> 1 - (of_nat a / of_nat b :: rat)" and "1 - (of_nat a / of_nat b :: rat) \<le> 1"
  using assms by simp_all

lemma split_ws_no_space:
  assumes "\<forall>c \<in> set s. \<not> is_space c"
  shows "split_ws s = [s]"
proof -
  have "takeWhile (\<lambda>c. \<not> is_space c) s = s" and "dropWhile (\<lambda>c. \<not> is_space c) s = []"
    using assms by (simp_all add: takeWhile_eq_all_conv)
  then show ?thesis by (subst split_ws.simps) simp
qed

lemma split_ws_run:
  assumes u: "\<forall>c \<in> set u. \<not> is_space c"
    and w: "w \<noteq> []" "\<forall>c \<in> set w. is_space c"
    and v: "v = [] \<or> \<not> is_space (hd v)"
  shows "split_ws (u @ w @ v) = u # split_ws v"
proof -
  obtain x w' where wx: "w = x # w'" using w(1) by (cases w) auto
  have x: "is_space x" using w(2) wx by simp
  have take: "takeWhile (\<lambda>c. \<not> is_space c) (u @ w @ v) = u"
    using u x by (simp add: takeWhile_append2 wx)
  have drop: "dropWhile (\<lambda>c. \<not> is_space c) (u @ w @ v) = w @ v"
    using u x by (simp add: dropWhile_append2 wx)
  have "dropWhile is_space (w @ v) = dropWhile is_space v"
    using w(2) by (simp add: dropWhile_append2)
  moreover have "dropWhile is_space v = v"
    using v by (cases v) auto
  ultimately have rest: "dropWhile is_space (w @ v) = v" by simp
  have "split_ws (u @ w @ v) =
          (let token = takeWhile (\<lambda>c. \<not> is_space c) (u @ w @ v);
               rest = dropWhile (\<lambda>c. \<not> is_space c) (u @ w @ v)
           in if rest = [] then [token] else token # split_ws (dropWhile is_space rest))"
    by (rule split_ws.simps)
  also have "\<dots> = u # split_ws v"
    using w(1) by (simp add: take drop rest Let_def)
  finally show ?thesis .
qed

lemma split_ws_ab: "split_ws ''a b'' = [''a'', ''b'']" by code_simp
lemma split_ws_ba: "split_ws ''b a'' = [''b'', ''a'']" by code_simp
lemma split_ws_abxy: "split_ws ''a b x y'' = [''a'', ''b'', ''x'', ''y'']" by code_simp
lemma split_ws_aab: "split_ws ''a a b'' = [''a'', ''a'', ''b'']" by code_simp
lemma split_ws_ac: "split_ws ''a c'' = [''a'', ''c'']" by code_simp

lemma split_ws_all_spaces:
  "split_ws ([CHR 0x20] @ ''a'' @ [CHR 0x09, CHR 0x0A, CHR 0x0B, CHR 0x0C, CHR 0x0D, CHR 0xA0]
             @ ''b'' @ [CHR 0x20, CHR 0x20])
     = [[], ''a'', ''b'', []]"
  by code_simp

text \<open>
  C7. \<open>calculateChangeRate\<close> is 1 minus the number of tokens of the current text
  (duplicates counted) that occur among the tokens of the previous text, divided by the
  larger of the two token counts. It lies between 0 and 1, it is 0 when the two texts are
  the same string, and it is 1 exactly when the two texts share no token, as for the
  previous text \<open>a b c d\<close> and the current text \<open>e f g h\<close>.

  The tokens are those of a split at white space, white space being the code units 9 to
  13, 32 and 160: a text without white space is its own single token, and a text that
  starts with a white-space-free part \<open>u\<close> followed by a maximal non-empty run of white
  space has the first token \<open>u\<close> and then the tokens of what follows the run. These two
  equations determine the tokens of every text; a run at either end leaves an empty
  token there. The order of the words does not matter (\<open>b a\<close> against \<open>a b\<close> gives 0),
  half of the words shared gives 1/2, and a repeated word counts each time.
\<close>

theorem calculateChangeRate_formula:
  "calculateChangeRate current previous =
     1 - of_nat (length (filter (\<lambda>w. w \<in> set (split_ws (textContent previous)))
                          (split_ws (textContent current))))
         / of_nat (max (length (split_ws (textContent current)))
                       (length (split_ws (textContent previous))))
   \<and> 0 \<le> calculateChangeRate current previous
   \<and> calculateChangeRate current previous \<le> 1
   \<and> (textContent current = textContent previous \<longrightarrow> calculateChangeRate current previous = 0)
   \<and> ((calculateChangeRate current previous = 1) =
        (set (split_ws (textContent current)) \<inter> set (split_ws (textContent previous)) = {}))
   \<and> is_space ch = ((of_char ch :: nat) \<in> {9, 10, 11, 12, 13, 32, 160})
   \<and> ((\<forall>c \<in> set s. \<not> is_space c) \<longrightarrow> split_ws s = [s])
   \<and> ((\<forall>c \<in> set u. \<not> is_space c) \<and> w \<noteq> [] \<and> (\<forall>c \<in> set w. is_space c)
        \<and> (v = [] \<or> \<not> is_space (hd v)) \<longrightarrow> split_ws (u @ w @ v) = u # split_ws v)
   \<and> split_ws ''a b c d'' = [''a'', ''b'', ''c'', ''d'']
   \<and> split_ws ([CHR 0x20] @ ''a'' @ [CHR 0x09, CHR 0x0A, CHR 0x0B, CHR 0x0C, CHR 0x0D, CHR 0xA0]
                @ ''b'' @ [CHR 0x20, CHR 0x20]) = [[], ''a'', ''b'', []]
   \<and> calculateChangeRate (current\<lparr>textContent := ''a b c d''\<rparr>)
                          (previous\<lparr>textContent := ''a b c d''\<rparr>) = 0
   \<and> calculateChangeRate (current\<lparr>textContent := ''e f g h''\<rparr>)
                          (previous\<lparr>textContent := ''a b c d''\<rparr>) = 1
   \<and> calculateChangeRate (current\<lparr>textContent := ''b a''\<rparr>)
                          (previous\<lparr>textContent := ''a b''\<rparr>) = 0
   \<and> calculateChangeRate (current\<lparr>textContent := ''a b x y''\<rparr>)
                          (previous\<lparr>textContent := ''a b c d''\<rparr>) = 1 / 2
   \<and> calculateChangeRate (current\<lparr>textContent := ''a a b''\<rparr>)
                          (previous\<lparr>textContent := ''a c''\<rparr>) = 1 / 3"
proof -
  let ?cw = "split_ws (textContent current)" and ?pw = "split_ws (textContent previous)"
  let ?common = "filter (\<lambda>w. w \<in> set ?pw) ?cw"
  have formula: "calculateChangeRate current previous =
      1 - of_nat (length ?common) / of_nat (max (length ?cw) (length ?pw))"
    by (simp add: calculateChangeRate_def commonWords_def changeRate_divisor_def)
  have le: "length ?common \<le> max (length ?cw) (length ?pw)"
    using length_filter_le [of "\<lambda>w. w \<in> set ?pw" ?cw] by linarith
  have pos: "0 < max (length ?cw) (length ?pw)"
    using split_ws_nonempty [of "textContent current"] by (simp add: less_max_iff_disj)
  have same: "calculateChangeRate current previous = 0"
    if eq: "textContent current = textContent previous"
  proof -
    have "?common = ?cw" by (simp add: eq)
    moreover have "length ?cw \<noteq> 0" using split_ws_nonempty [of "textContent current"] by simp
    ultimately show ?thesis by (simp add: formula eq)
  qed
  have one: "(calculateChangeRate current previous = 1) = (set ?cw \<inter> set ?pw = {})"
  proof -
    have "(calculateChangeRate current previous = 1) = (length ?common = 0)"
      using pos by (simp add: formula split_ws_nonempty)
    also have "\<dots> = (\<forall>w \<in> set ?cw. w \<notin> set ?pw)"
      by (simp add: filter_empty_conv)
    also have "\<dots> = (set ?cw \<inter> set ?pw = {})"
      by blast
    finally show ?thesis .
  qed
  have examples:
    "calculateChangeRate (current\<lparr>textContent := ''a b c d''\<rparr>)
                          (previous\<lparr>textContent := ''a b c d''\<rparr>) = 0"
    "calculateChangeRate (current\<lparr>textContent := ''e f g h''\<rparr>)
                          (previous\<lparr>textContent := ''a b c d''\<rparr>) = 1"
    "calculateChangeRate (current\<lparr>textContent := ''b a''\<rparr>)
                          (previous\<lparr>textContent := ''a b''\<rparr>) = 0"
    "calculateChangeRate (current\<lparr>textContent := ''a b x y''\<rparr>)
                          (previous\<lparr>textContent := ''a b c d''\<rparr>) = 1 / 2"
    "calculateChangeRate (current\<lparr>textContent := ''a a b''\<rparr>)
                          (previous\<lparr>textContent := ''a c''\<rparr>) = 1 / 3"
    by (simp_all add: calculateChangeRate_def commonWords_def changeRate_divisor_def
        split_ws_abcd split_ws_efgh split_ws_ab split_ws_ba split_ws_abxy split_ws_aab split_ws_ac)
  have tokens: "(\<forall>c \<in> set s. \<not> is_space c) \<longrightarrow> split_ws s = [s]"
    "(\<forall>c \<in> set u. \<not> is_space c) \<and> w \<noteq> [] \<and> (\<forall>c \<in> set w. is_space c)
        \<and> (v = [] \<or> \<not> is_space (hd v)) \<longrightarrow> split_ws (u @ w @ v) = u # split_ws v"
    using split_ws_no_space [of s] split_ws_run [of u w v] by blast+
  show ?thesis
    using formula rate_bounds [OF le pos] same one examples tokens
      split_ws_abcd split_ws_all_spaces
    by (simp add: is_space_def)
qed

theorem calculateChangeRate_formula_witness:
  "calculateChangeRate (example_page\<lparr>textContent := ''a b c d''\<rparr>)
                       (example_page\<lparr>textContent := ''a b c d'', hash := Some ''ab12''\<rparr>) = 0
   \<and> set (split_ws ''e f g h'') \<inter> set (split_ws ''a b c d'') = {}
   \<and> calculateChangeRate (example_page\<lparr>textContent := ''e f g h''\<rparr>)
                          (example_page\<lparr>textContent := ''a b c d'', hash := Some ''ab12''\<rparr>) = 1
   \<and> split_ws ''acme'' = [''acme'']
   \<and> split_ws (''welcome'' @ [CHR 0x20, CHR 0x0A] @ ''to acme'') = ''welcome'' # split_ws ''to acme''"
proof -
  let ?cur = "example_page\<lparr>textContent := ''a b c d''\<rparr>"
  let ?cur' = "example_page\<lparr>textContent := ''e f g h''\<rparr>"
  let ?prev = "example_page\<lparr>textContent := ''a b c d'', hash := Some ''ab12''\<rparr>"
  note same = calculateChangeRate_formula
    [where current = ?cur and previous = ?prev and ch = "CHR ''a''" and s = "''acme''"
       and u = "''welcome''" and w = "[CHR 0x20, CHR 0x0A]" and v = "''to acme''"]
  note other = calculateChangeRate_formula
    [where current = ?cur' and previous = ?prev and ch = "CHR ''a''" and s = "''acme''"
       and u = "''welcome''" and w = "[CHR 0x20, CHR 0x0A]" and v = "''to acme''"]
  have disj: "set (split_ws ''e f g h'') \<inter> set (split_ws ''a b c d'') = {}"
    by (simp add: split_ws_abcd split_ws_efgh)
  have r0: "calculateChangeRate ?cur ?prev = 0"
    using same by simp
  have r1: "calculateChangeRate ?cur' ?prev = 1"
    using disj other [THEN conjunct2, THEN conjunct2, THEN conjunct2, THEN conjunct2, THEN conjunct1]
    by simp
  have t1: "split_ws ''acme'' = [''acme'']"
    using same by (simp add: is_space_def)
  have t2: "split_ws (''welcome'' @ [CHR 0x20, CHR 0x0A] @ ''to acme'') = ''welcome'' # split_ws ''to acme''"
    using same by (simp add: is_space_def)
  show ?thesis using disj r0 r1 t1 t2 by simp
qed

text \<open>
  C10. Splitting at white space gives at least one token for every string, and exactly
  the one empty token for the empty string; so the divisor of \<open>calculateChangeRate\<close> is
  at least 1 for every pair of snapshots, and the result is the quotient by that divisor.
\<close>

theorem calculateChangeRate_total:
  "split_ws s \<noteq> [] \<and> split_ws [] = [[]]
   \<and> 1 \<le> changeRate_divisor current previous
   \<and> calculateChangeRate current previous =
       1 - of_nat (length (commonWords current previous))
           / of_nat (changeRate_divisor current previous)"
proof -
  have "split_ws [] = [[]]" by (subst split_ws.simps) simp
  moreover have "1 \<le> changeRate_divisor current previous"
    using split_ws_nonempty [of "textContent current"]
    by (cases "split_ws (textContent current)") (simp_all add: changeRate_divisor_def)
  ultimately show ?thesis
    using split_ws_nonempty [of s] by (simp add: calculateChangeRate_def)
qed

section \<open>Properties of the snapshot store and of a run\<close>

lemma snapshotPath_files [simp]: "snapshotPath (mon\<lparr>files := f\<rparr>) i = snapshotPath mon i"
  by (simp add: snapshotPath_def)

lemma saveSnapshot_rejected:
  "rejects mon (snapshotPath mon i) \<Longrightarrow>
   saveSnapshot mon i snapshot = logger_error mon (''Failed to save snapshot for '' @ i)"
  by (simp add: saveSnapshot_def writeFile_def)

lemma monitorWebsite_Page:
  "getPageContent env = Page currentContent \<Longrightarrow>
   monitorWebsite sha256 env mon c =
     (\<lparr> competitor = name c, website_res = website c, timestamp_res = result_time env,
        changes = (case loadPreviousSnapshot mon (competitor_id c) of
                     None \<Rightarrow> []
                   | Some prev \<Rightarrow>
                       (if hash currentContent \<noteq> hash prev then [content_record] else [])
                       @ (if title currentContent \<noteq> title prev
                          then [title_record (title prev) (title currentContent)] else [])
                       @ (if url currentContent \<noteq> url prev
                          then [url_record (url prev) (url currentContent)] else [])
                       @ compareMetrics (metrics currentContent) (metrics prev)),
        errors = [],
        metrics_res = (case loadPreviousSnapshot mon (competitor_id c) of
                         None \<Rightarrow> None
                       | Some prev \<Rightarrow> Some (calculateMetrics currentContent (Some prev))) \<rparr>,
      saveSnapshot mon (competitor_id c)
        (currentContent\<lparr>hash := Some (sha256 (html currentContent)),
                        timestamp := snapshot_time env\<rparr>))"
  by (simp add: monitorWebsite_def detectChanges_Some generateHash_def Let_def split: option.splits)

lemma monitorWebsite_competitor: "competitor (fst (monitorWebsite sha256 env mon c)) = name c"
  by (simp add: monitorWebsite_def monitorWebsite_catch_def detectChanges_Some Let_def
      split: fetch_outcome.splits option.splits)

lemma monitorAll_loop_acc:
  "monitorAll_loop sha256 env mon cs rs =
     (rs @ fst (monitorAll_loop sha256 env mon cs []), snd (monitorAll_loop sha256 env mon cs []))"
proof (induction cs arbitrary: mon rs)
  case Nil
  show ?case by simp
next
  case (Cons c cs)
  show ?case
  proof (cases "monitoring_website c")
    case False
    then show ?thesis using Cons.IH [of mon rs] by simp
  next
    case True
    obtain r mon' where run: "monitorWebsite sha256 (env c) mon c = (r, mon')"
      by (cases "monitorWebsite sha256 (env c) mon c")
    show ?thesis
      using True Cons.IH [of mon' "rs @ [r]"] Cons.IH [of mon' "[r]"] by (simp add: run)
  qed
qed

lemma monitorAll_Cons:
  "monitoring_website c \<Longrightarrow>
   fst (monitorAll sha256 env mon (c # cs)) =
     fst (monitorWebsite sha256 (env c) mon c)
     # fst (monitorAll sha256 env (snd (monitorWebsite sha256 (env c) mon c)) cs)"
  using monitorAll_loop_acc [of sha256 env "snd (monitorWebsite sha256 (env c) mon c)" cs
                                "[fst (monitorWebsite sha256 (env c) mon c)]"]
  by (simp add: monitorAll_def split_beta)

lemma monitorAll_skip:
  "\<not> monitoring_website c \<Longrightarrow> monitorAll sha256 env mon (c # cs) = monitorAll sha256 env mon cs"
  by (simp add: monitorAll_def)

lemma monitorAll_competitors:
  "map competitor (fst (monitorAll sha256 env mon cs)) = map name (filter monitoring_website cs)"
proof (induction cs arbitrary: mon)
  case Nil
  show ?case by (simp add: monitorAll_def)
next
  case (Cons c cs)
  show ?case
  proof (cases "monitoring_website c")
    case True
    then show ?thesis
      using Cons.IH by (simp add: monitorAll_Cons monitorWebsite_competitor)
  next
    case False
    then show ?thesis using Cons.IH by (simp add: monitorAll_skip)
  qed
qed

lemma load_after_save:
  "\<not> rejects mon (snapshotPath mon i) \<Longrightarrow>
   loadPreviousSnapshot (saveSnapshot mon i snapshot) i = Some snapshot"
  by (simp add: loadPreviousSnapshot_def saveSnapshot_def writeFile_def readFile_def
      JSON_stringify_def JSON_parse_def)

lemma saveSnapshot_keeps:
  "rejects (saveSnapshot mon i snapshot) = rejects mon
   \<and> snapshotsDir (saveSnapshot mon i snapshot) = snapshotsDir mon"
  by (simp add: saveSnapshot_def writeFile_def logger_error_def)

lemma monitorWebsite_stores:
  assumes "getPageContent env = Page currentContent"
    and "\<not> rejects mon (snapshotPath mon (competitor_id c))"
  shows "loadPreviousSnapshot (snd (monitorWebsite sha256 env mon c)) (competitor_id c) =
           Some (currentContent\<lparr>hash := Some (sha256 (html currentContent)),
                                timestamp := snapshot_time env\<rparr>)"
    and "rejects (snd (monitorWebsite sha256 env mon c)) = rejects mon"
    and "snapshotPath (snd (monitorWebsite sha256 env mon c)) i = snapshotPath mon i"
  using assms
  by (simp_all add: monitorWebsite_Page load_after_save saveSnapshot_keeps snapshotPath_def)

text \<open>
  C3, as the code has it. \<open>detectChanges\<close> does not return for an absent previous
  snapshot: it throws a TypeError, for every current snapshot.
\<close>

theorem detectChanges_absent_throws:
  "detectChanges example_page None = Inl TypeError \<and> detectChanges example_page None \<noteq> Inr []"
  by (simp add: detectChanges_def)

text \<open>
  C3, amended. The empty change list for an absent previous snapshot comes from
  \<open>monitorWebsite\<close>: when the page was fetched and no previous snapshot could be loaded,
  \<open>detectChanges\<close> (which would throw a TypeError on that pair) is not called, and the
  run's result has no change records and no errors.
\<close>

theorem monitorWebsite_no_previous:
  assumes "getPageContent env = Page currentContent"
    and "loadPreviousSnapshot mon (competitor_id c) = None"
  shows "detectChanges currentContent (loadPreviousSnapshot mon (competitor_id c)) = Inl TypeError
         \<and> changes (fst (monitorWebsite sha256 env mon c)) = []
         \<and> errors (fst (monitorWebsite sha256 env mon c)) = []"
  using assms by (simp add: monitorWebsite_def detectChanges_def Let_def)

theorem monitorWebsite_no_previous_witness:
  "getPageContent (example_env example_page) = Page example_page
   \<and> loadPreviousSnapshot example_monitor (competitor_id example_competitor) = None
   \<and> detectChanges example_page
        (loadPreviousSnapshot example_monitor (competitor_id example_competitor)) = Inl TypeError
   \<and> changes (fst (monitorWebsite example_sha256 (example_env example_page) example_monitor
                     example_competitor)) = []
   \<and> errors (fst (monitorWebsite example_sha256 (example_env example_page) example_monitor
                     example_competitor)) = []"
proof -
  have env: "getPageContent (example_env example_page) = Page example_page"
    by (simp add: example_env_def)
  have load: "loadPreviousSnapshot example_monitor (competitor_id example_competitor) = None"
    by (simp add: loadPreviousSnapshot_def readFile_def example_monitor_def)
  show ?thesis
    using env load monitorWebsite_no_previous [OF env load, of example_sha256] by simp
qed

text \<open>
  C8, as the code has it. When the write fails, \<open>saveSnapshot\<close> logs the failure and
  returns, and loading the identifier afterwards does not give the snapshot.
\<close>

theorem save_load_write_failure:
  "loadPreviousSnapshot (saveSnapshot readonly_monitor ''acme'' example_page) ''acme'' = None
   \<and> loadPreviousSnapshot (saveSnapshot readonly_monitor ''acme'' example_page) ''acme''
       \<noteq> Some example_page"
  by (simp add: loadPreviousSnapshot_def saveSnapshot_def writeFile_def readFile_def
      logger_error_def readonly_monitor_def example_monitor_def snapshotPath_def)

text \<open>
  C8, amended. For every entity identifier and every snapshot, if the disk accepts the
  write to the identifier's snapshot file, then saving the snapshot under the identifier
  and loading the identifier returns the snapshot saved, equal in all fields.
\<close>

theorem save_load_roundtrip:
  assumes "\<not> rejects mon (snapshotPath mon competitorId)"
  shows "loadPreviousSnapshot (saveSnapshot mon competitorId snapshot) competitorId = Some snapshot"
  using assms
  by (simp add: loadPreviousSnapshot_def saveSnapshot_def writeFile_def readFile_def
      JSON_stringify_def JSON_parse_def)

theorem save_load_roundtrip_witness:
  "\<not> rejects example_monitor (snapshotPath example_monitor ''acme'')
   \<and> loadPreviousSnapshot (saveSnapshot example_monitor ''acme'' example_page) ''acme''
       = Some example_page"
proof -
  have w: "\<not> rejects example_monitor (snapshotPath example_monitor ''acme'')"
    by (simp add: example_monitor_def)
  show ?thesis
    using w save_load_roundtrip [OF w, of example_page] by simp
qed

text \<open>
  C9, as the code has it. A run whose snapshot write fails returns a result with an
  empty error list: the failure is not visible in the run's results.
\<close>

theorem write_failure_not_in_results:
  "rejects readonly_monitor (snapshotPath readonly_monitor (competitor_id example_competitor))
   \<and> errors (fst (monitorWebsite example_sha256 (example_env example_page) readonly_monitor
                    example_competitor)) = []"
  by (simp add: monitorWebsite_Page example_env_def readonly_monitor_def)

text \<open>
  C9, amended. When the page was fetched and the snapshot write fails, \<open>saveSnapshot\<close>
  writes the failure to the error log and returns: the run's result has an empty error
  list, the monitor is as before but for the new log line, \<open>monitorAll\<close> goes on with
  the remaining competitors from that state, and it returns one result for every
  monitored competitor, in order.
\<close>

theorem write_failure_logged:
  assumes "getPageContent env = Page currentContent"
    and "rejects mon (snapshotPath mon (competitor_id c))"
  shows "errors (fst (monitorWebsite sha256 env mon c)) = []
         \<and> snd (monitorWebsite sha256 env mon c) =
             mon\<lparr>error_log := error_log mon @ [''Failed to save snapshot for '' @ competitor_id c]\<rparr>
         \<and> (monitoring_website c \<and> envs c = env \<longrightarrow>
              fst (monitorAll sha256 envs mon (c # cs)) =
                fst (monitorWebsite sha256 env mon c)
                # fst (monitorAll sha256 envs (snd (monitorWebsite sha256 env mon c)) cs))
         \<and> map competitor (fst (monitorAll sha256 envs mon (c # cs))) =
             map name (filter monitoring_website (c # cs))"
  using assms
  by (simp add: monitorWebsite_Page saveSnapshot_rejected logger_error_def monitorAll_competitors
      monitorAll_Cons)

theorem write_failure_logged_witness:
  "getPageContent (example_env example_page) = Page example_page
   \<and> rejects readonly_monitor (snapshotPath readonly_monitor (competitor_id example_competitor))
   \<and> errors (fst (monitorWebsite example_sha256 (example_env example_page) readonly_monitor
                    example_competitor)) = []
   \<and> snd (monitorWebsite example_sha256 (example_env example_page) readonly_monitor
            example_competitor)
       = readonly_monitor\<lparr>error_log := [''Failed to save snapshot for acme'']\<rparr>
   \<and> map competitor
        (fst (monitorAll example_sha256 (\<lambda>c. example_env example_page) readonly_monitor
               [example_competitor, example_competitor\<lparr>name := ''Globex'', competitor_id := ''globex''\<rparr>]))
       = [''Acme'', ''Globex'']"
proof -
  have env: "getPageContent (example_env example_page) = Page example_page"
    by (simp add: example_env_def)
  have rej: "rejects readonly_monitor (snapshotPath readonly_monitor (competitor_id example_competitor))"
    by (simp add: readonly_monitor_def)
  let ?globex = "example_competitor\<lparr>name := ''Globex'', competitor_id := ''globex''\<rparr>"
  note th = write_failure_logged [OF env rej, of example_sha256 "\<lambda>c. example_env example_page"
              "[?globex]"]
  have log: "error_log readonly_monitor = []"
    by (simp add: readonly_monitor_def example_monitor_def)
  have ident: "competitor_id example_competitor = ''acme''"
    by (simp add: example_competitor_def)
  have names: "map name (filter monitoring_website [example_competitor, ?globex])
                 = [''Acme'', ''Globex'']"
    by (simp add: example_competitor_def)
  have "snd (monitorWebsite example_sha256 (example_env example_page) readonly_monitor
            example_competitor)
       = readonly_monitor\<lparr>error_log := [''Failed to save snapshot for acme'']\<rparr>"
    using th by (simp add: log ident)
  moreover have "map competitor
        (fst (monitorAll example_sha256 (\<lambda>c. example_env example_page) readonly_monitor
               [example_competitor, ?globex])) = [''Acme'', ''Globex'']"
    using th names by simp
  ultimately show ?thesis
    using env rej th by simp
qed

text \<open>
  C1, as the code has it. Three runs for one competitor, starting without a snapshot:
  the first reports no change and stores the baseline; the second fetches the very same
  page and reports a content change; the third fetches the page with another title and
  reports a content change and the title change. \<open>monitorWebsite\<close> hands
  \<open>detectChanges\<close> the fetched page, which has no \<open>hash\<close> property, while every saved
  snapshot has one.
\<close>

theorem monitorWebsite_rerun_reports_content:
  "(let (r1, m1) = monitorWebsite example_sha256 (example_env example_page) example_monitor
                     example_competitor;
        (r2, m2) = monitorWebsite example_sha256 (example_env example_page) m1 example_competitor;
        (r3, m3) = monitorWebsite example_sha256 (example_env example_page_retitled) m2
                     example_competitor
    in changes r1 = [] \<and> errors r1 = []
       \<and> loadPreviousSnapshot m1 ''acme'' =
           Some (example_page\<lparr>hash := Some (example_sha256 (html example_page)),
                              timestamp := ''2024-01-08T00:00:05.000Z''\<rparr>)
       \<and> changes r2 = [content_record]
       \<and> changes r3 = [content_record, title_record ''Acme'' ''Acme Corp''])"
  apply (simp add: split_beta Let_def)
  apply (simp add: monitorWebsite_Page [of _ example_page]
      monitorWebsite_Page [of _ example_page_retitled] example_env_def)
  apply (simp add: saveSnapshot_def writeFile_def loadPreviousSnapshot_def readFile_def
      JSON_parse_def JSON_stringify_def example_monitor_def example_competitor_def
      snapshotPath_def compareMetrics_self)
  apply (simp add: example_page_def example_page_retitled_def compareMetrics_self)
  done

text \<open>
  C1, amended. In a run for a competitor with a stored previous snapshot, if the fetched
  page has the url and the metrics of that snapshot, the run reports no url record and no
  metric record, and it reports no title record when the title is that of the snapshot
  too, exactly one title record when the title differs. So a run on identical content
  reports no title, url or metric record, and a run that differs in the title only
  reports exactly one title record and no url or metric record. Whether a content record
  is reported is not part of the statement.
\<close>

theorem monitorWebsite_rerun:
  assumes "getPageContent env = Page currentContent"
    and "loadPreviousSnapshot mon (competitor_id c) = Some previous"
    and "url currentContent = url previous"
    and "metrics currentContent = metrics previous"
  shows "filter (\<lambda>r. type r \<noteq> Content) (changes (fst (monitorWebsite sha256 env mon c))) =
           (if title currentContent = title previous then []
            else [title_record (title previous) (title currentContent)])"
  using assms
  by (simp add: monitorWebsite_Page compareMetrics_self content_record_def title_record_def)

theorem monitorWebsite_rerun_witness:
  "(let (r1, m1) = monitorWebsite example_sha256 (example_env example_page) example_monitor
                     example_competitor;
        (r2, m2) = monitorWebsite example_sha256 (example_env example_page) m1 example_competitor;
        (r3, m3) = monitorWebsite example_sha256 (example_env example_page_retitled) m2
                     example_competitor
    in changes r1 = []
       \<and> filter (\<lambda>r. type r \<noteq> Content) (changes r2) = []
       \<and> filter (\<lambda>r. type r \<noteq> Content) (changes r3) = [title_record ''Acme'' ''Acme Corp''])"
proof -
  let ?env = "example_env example_page" and ?env' = "example_env example_page_retitled"
  let ?stored = "example_page\<lparr>hash := Some (example_sha256 (html example_page)),
                              timestamp := snapshot_time ?env\<rparr>"
  let ?m1 = "snd (monitorWebsite example_sha256 ?env example_monitor example_competitor)"
  let ?m2 = "snd (monitorWebsite example_sha256 ?env ?m1 example_competitor)"
  have fetch: "getPageContent ?env = Page example_page"
    and fetch': "getPageContent ?env' = Page example_page_retitled"
    by (simp_all add: example_env_def)
  have w0: "\<not> rejects example_monitor (snapshotPath example_monitor (competitor_id example_competitor))"
    by (simp add: example_monitor_def)
  have none: "loadPreviousSnapshot example_monitor (competitor_id example_competitor) = None"
    by (simp add: loadPreviousSnapshot_def readFile_def example_monitor_def)
  have load1: "loadPreviousSnapshot ?m1 (competitor_id example_competitor) = Some ?stored"
    using monitorWebsite_stores(1) [OF fetch w0] .
  have w1: "\<not> rejects ?m1 (snapshotPath ?m1 (competitor_id example_competitor))"
    using w0 monitorWebsite_stores(2,3) [OF fetch w0] by simp
  have load2: "loadPreviousSnapshot ?m2 (competitor_id example_competitor) = Some ?stored"
    using monitorWebsite_stores(1) [OF fetch w1] .
  have r1: "changes (fst (monitorWebsite example_sha256 ?env example_monitor example_competitor)) = []"
    using none by (simp add: monitorWebsite_Page [OF fetch])
  have r2: "filter (\<lambda>r. type r \<noteq> Content)
              (changes (fst (monitorWebsite example_sha256 ?env ?m1 example_competitor))) = []"
    using monitorWebsite_rerun [OF fetch load1, of example_sha256] by simp
  have r3: "filter (\<lambda>r. type r \<noteq> Content)
              (changes (fst (monitorWebsite example_sha256 ?env' ?m2 example_competitor)))
            = [title_record ''Acme'' ''Acme Corp'']"
    using monitorWebsite_rerun [OF fetch' load2, of example_sha256]
    by (simp add: example_page_retitled_def example_page_def)
  show ?thesis
    using r1 r2 r3 by (simp add: split_beta)
qed

end
